theory Spec2Isabelle
  imports Complex_Main "HOL-Library.Char_ord" "HOL-Library.List_Lexorder"
    "HOL-Library.Product_Lexorder"
begin

section \<open>The transaction table\<close>

text \<open>
  The program (\<^verbatim>\<open>app2.py\<close>) keeps one pandas data frame \<^verbatim>\<open>df\<close>, read once at start-up,
  and recomputes every view in the callback \<^verbatim>\<open>update_all\<close> from a filtered copy \<^verbatim>\<open>dff\<close>.

  A row of the frame after the cleaning step (lines 34-45) is a record with the source's
  column names.
  \<^item> \<^verbatim>\<open>Date_Transaction\<close> is a \<^verbatim>\<open>datetime64[ns]\<close>: the number of nanoseconds since the epoch,
    or \<^verbatim>\<open>NaT\<close> (\<open>None\<close>) where the cell could not be parsed.
  \<^item> \<^verbatim>\<open>Montant\<close> is a \<^verbatim>\<open>float64\<close> in the program. It is modelled by an exact rational:
    rounding of binary floating point is outside this model, and every statement below
    about sums and means of amounts is a statement of exact arithmetic.
  \<^item> \<^verbatim>\<open>Quantite\<close> and \<^verbatim>\<open>Satisfaction_Client\<close> are integers (\<^verbatim>\<open>astype(int)\<close>).
  \<^item> \<^verbatim>\<open>Produit\<close> is the optional column: the frame records whether the column exists
    (\<open>has_Produit\<close>), and a cell of it may be empty (\<open>None\<close>, pandas' \<^verbatim>\<open>NaN\<close>), since the
    cleaning step does not touch that column.
\<close>

record row =
  ID_Client :: string
  Date_Transaction :: "int option"
  Montant :: rat
  Magasin :: string
  Categorie_Produit :: string
  Quantite :: int
  Mode_Paiement :: string
  Satisfaction_Client :: int
  Produit :: "string option"

record dataframe =
  rows :: "row list"
  has_Produit :: bool

section \<open>Loading and cleaning (lines 17-45)\<close>

text \<open>
  The start-up code stops the program in three places before the table is used:
  \<^item> line 18: the file is absent (\<^verbatim>\<open>sys.exit\<close>);
  \<^item> line 23: \<^verbatim>\<open>pd.read_excel(..., parse_dates=["Date_Transaction"])\<close>. pandas checks the
    columns named by \<^verbatim>\<open>parse_dates\<close> against the sheet's header and raises
    \<^verbatim>\<open>ValueError("Missing column provided to 'parse_dates': ...")\<close> when one is absent;
  \<^item> line 29: a required column is absent (\<^verbatim>\<open>sys.exit\<close> with a message that prints the
    set \<^verbatim>\<open>missing\<close> and \<^verbatim>\<open>sorted(expected_cols)\<close>).
  The messages are modelled by the values they print.
\<close>

datatype load_error =
    SourceNotFound
  | MissingParseDates "string list"
  | MissingColumns "string set" "string list"
  | IntCastingNaNError

definition expected_cols :: "string set" where
  "expected_cols =
     {''ID_Client'', ''Date_Transaction'', ''Montant'', ''Magasin'', ''Categorie_Produit'',
      ''Quantite'', ''Mode_Paiement'', ''Satisfaction_Client''}"

definition parse_dates :: "string list" where
  "parse_dates = [''Date_Transaction'']"

definition read_excel_header :: "string list \<Rightarrow> load_error + unit" where
  "read_excel_header columns =
     (let absent = filter (\<lambda>c. c \<notin> set columns) parse_dates
      in if absent \<noteq> [] then Inl (MissingParseDates absent) else Inr ())"

definition check_columns :: "string list \<Rightarrow> load_error + unit" where
  "check_columns columns =
     (let missing = expected_cols - set columns
      in if missing \<noteq> {} then Inl (MissingColumns missing (sorted_list_of_set expected_cols))
         else Inr ())"

text \<open>
  \<open>load_checks xlsx_exists columns\<close>: the three checks in program order, for a source
  that exists or not and whose sheet has the header \<open>columns\<close>.
\<close>

definition load_checks :: "bool \<Rightarrow> string list \<Rightarrow> load_error + unit" where
  "load_checks xlsx_exists columns =
     (if \<not> xlsx_exists then Inl SourceNotFound
      else case read_excel_header columns of
             Inl e \<Rightarrow> Inl e
           | Inr u \<Rightarrow> check_columns columns)"

text \<open>
  Cleaning works column by column. A cell as \<^verbatim>\<open>read_excel\<close> delivers it is empty
  (\<^verbatim>\<open>NaN\<close>), a number or a text. \<^verbatim>\<open>pd.to_numeric(errors='coerce')\<close> turns a cell into a
  \<^verbatim>\<open>float64\<close> or into \<^verbatim>\<open>NaN\<close> (\<open>None\<close>); a text goes through pandas' number parser, which
  is a parameter \<open>parse\<close> here (it accepts \<^verbatim>\<open>'inf'\<close>, so the outcome may be infinite).
  Finite floats are modelled by rationals.
\<close>

datatype cell = NaN | Number rat | Text string

datatype float64 = Finite rat | PosInf | NegInf

definition to_numeric :: "(string \<Rightarrow> float64 option) \<Rightarrow> cell list \<Rightarrow> float64 option list" where
  "to_numeric parse col =
     map (\<lambda>c. case c of NaN \<Rightarrow> None | Number x \<Rightarrow> Some (Finite x) | Text s \<Rightarrow> parse s) col"

definition fillna :: "'a \<Rightarrow> 'a option list \<Rightarrow> 'a list" where
  "fillna v col = map (\<lambda>c. case c of None \<Rightarrow> v | Some x \<Rightarrow> x) col"

text \<open>
  \<^verbatim>\<open>astype(int)\<close> truncates towards zero and raises \<^verbatim>\<open>IntCastingNaNError\<close> when a value of
  the column is not finite. (Values beyond 64 bits are outside this model.)
\<close>

definition trunc :: "rat \<Rightarrow> int" where
  "trunc x = (if 0 \<le> x then \<lfloor>x\<rfloor> else \<lceil>x\<rceil>)"

fun astype_int :: "float64 list \<Rightarrow> load_error + int list" where
  "astype_int [] = Inr []"
| "astype_int (Finite x # xs) =
     (case astype_int xs of Inl e \<Rightarrow> Inl e | Inr ys \<Rightarrow> Inr (trunc x # ys))"
| "astype_int (v # xs) = Inl IntCastingNaNError"

text \<open>
  \<^verbatim>\<open>astype(str)\<close> turns every cell of an object column into its text (pandas before
  version 3): the empty cell becomes the text \<^verbatim>\<open>'nan'\<close>, a number the text \<open>repr\<close> prints
  for it (a parameter). No cell is missing afterwards; the result has the option type
  only because \<^verbatim>\<open>fillna\<close> follows.
\<close>

definition astype_str :: "(rat \<Rightarrow> string) \<Rightarrow> cell list \<Rightarrow> string option list" where
  "astype_str repr col =
     map (\<lambda>c. case c of NaN \<Rightarrow> Some ''nan'' | Number x \<Rightarrow> Some (repr x) | Text s \<Rightarrow> Some s) col"

text \<open>Line 34 (\<^verbatim>\<open>Montant\<close>), lines 35-38 (the four text columns), lines 39-40 (the two integer columns).\<close>

definition clean_Montant :: "(string \<Rightarrow> float64 option) \<Rightarrow> cell list \<Rightarrow> float64 list" where
  "clean_Montant parse col = fillna (Finite 0) (to_numeric parse col)"

definition clean_text :: "(rat \<Rightarrow> string) \<Rightarrow> cell list \<Rightarrow> string list" where
  "clean_text repr col = fillna '''' (astype_str repr col)"

definition clean_int :: "(string \<Rightarrow> float64 option) \<Rightarrow> cell list \<Rightarrow> load_error + int list" where
  "clean_int parse col = astype_int (fillna (Finite 0) (to_numeric parse col))"

section \<open>Filtering (\<^verbatim>\<open>update_all\<close>, lines 199-209)\<close>

text \<open>
  The date picker hands over calendar dates as text (\<^verbatim>\<open>'2024-01-02'\<close>) or nothing. A date is
  modelled by its day number (days since 1970-01-01); \<^verbatim>\<open>pd.to_datetime\<close> of a date is the
  midnight that starts it, and \<^verbatim>\<open>pd.Timedelta(days=1)\<close> is one day of nanoseconds.
  \<open>None\<close> stands for both \<^verbatim>\<open>None\<close> and the empty string: the source tests \<^verbatim>\<open>if start_date:\<close>.
\<close>

definition ns_per_day :: int where
  "ns_per_day = 86400000000000"

definition to_datetime :: "int \<Rightarrow> int" where
  "to_datetime d = d * ns_per_day"

definition Timedelta_days :: "int \<Rightarrow> int" where
  "Timedelta_days n = n * ns_per_day"

text \<open>A comparison with \<^verbatim>\<open>NaT\<close> is false, so a row without a timestamp fails both tests.\<close>

definition ge_datetime :: "int option \<Rightarrow> int \<Rightarrow> bool" where
  "ge_datetime t bound = (case t of None \<Rightarrow> False | Some n \<Rightarrow> bound \<le> n)"

definition le_datetime :: "int option \<Rightarrow> int \<Rightarrow> bool" where
  "le_datetime t bound = (case t of None \<Rightarrow> False | Some n \<Rightarrow> n \<le> bound)"

text \<open>
  \<^verbatim>\<open>if stores:\<close> is false for \<^verbatim>\<open>None\<close> and for the empty list; otherwise the rows whose
  cell is in the list are kept (\<^verbatim>\<open>isin\<close>).
\<close>

definition isin_filter :: "(row \<Rightarrow> string) \<Rightarrow> string list option \<Rightarrow> row list \<Rightarrow> row list" where
  "isin_filter col sel rs =
     (case sel of
        None \<Rightarrow> rs
      | Some vs \<Rightarrow> if vs = [] then rs else filter (\<lambda>r. col r \<in> set vs) rs)"

definition start_filter :: "int option \<Rightarrow> row list \<Rightarrow> row list" where
  "start_filter start_date rs =
     (case start_date of
        None \<Rightarrow> rs
      | Some d \<Rightarrow> filter (\<lambda>r. ge_datetime (Date_Transaction r) (to_datetime d)) rs)"

definition end_filter :: "int option \<Rightarrow> row list \<Rightarrow> row list" where
  "end_filter end_date rs =
     (case end_date of
        None \<Rightarrow> rs
      | Some d \<Rightarrow>
          filter (\<lambda>r. le_datetime (Date_Transaction r) (to_datetime d + Timedelta_days 1)) rs)"

text \<open>The five steps in the order of the source; the result is the source's \<^verbatim>\<open>dff\<close>.\<close>

definition dff_rows ::
  "row list \<Rightarrow> int option \<Rightarrow> int option \<Rightarrow> string list option \<Rightarrow> string list option \<Rightarrow>
   string list option \<Rightarrow> row list" where
  "dff_rows rs start_date end_date stores cats pays =
     isin_filter Mode_Paiement pays
       (isin_filter Categorie_Produit cats
         (isin_filter Magasin stores
           (end_filter end_date (start_filter start_date rs))))"

definition dff ::
  "dataframe \<Rightarrow> int option \<Rightarrow> int option \<Rightarrow> string list option \<Rightarrow> string list option \<Rightarrow>
   string list option \<Rightarrow> dataframe" where
  "dff df start_date end_date stores cats pays =
     df\<lparr>rows := dff_rows (rows df) start_date end_date stores cats pays\<rparr>"

section \<open>Building blocks of the aggregation\<close>

text \<open>
  \<^verbatim>\<open>groupby(key)\<close> lists the groups in ascending order of the key (\<^verbatim>\<open>sort=True\<close>) and
  leaves out the rows whose key is missing (\<^verbatim>\<open>dropna=True\<close>); the key of a row is therefore
  optional here. The string columns have no missing cell after the cleaning step, so
  their key is \<open>Some\<close> of the cell.
\<close>

definition group_keys :: "('r \<Rightarrow> 'k::linorder option) \<Rightarrow> 'r list \<Rightarrow> 'k list" where
  "group_keys key rs = sort (remdups (List.map_filter key rs))"

definition group_rows :: "('r \<Rightarrow> 'k option) \<Rightarrow> 'k \<Rightarrow> 'r list \<Rightarrow> 'r list" where
  "group_rows key k rs = filter (\<lambda>r. key r = Some k) rs"

definition groupby_agg ::
  "('r \<Rightarrow> 'k::linorder option) \<Rightarrow> ('r list \<Rightarrow> 'v) \<Rightarrow> 'r list \<Rightarrow> ('k \<times> 'v) list" where
  "groupby_agg key agg rs = map (\<lambda>k. (k, agg (group_rows key k rs))) (group_keys key rs)"

text \<open>
  \<^verbatim>\<open>mean\<close> of a non-empty column. pandas answers \<^verbatim>\<open>NaN\<close> on an empty one; every call below
  is on a non-empty column (a group, or behind the test \<^verbatim>\<open>nb_transactions > 0\<close>).
\<close>

definition mean :: "rat list \<Rightarrow> rat" where
  "mean xs = sum_list xs / of_nat (length xs)"

definition sum_Montant :: "row list \<Rightarrow> rat" where
  "sum_Montant g = sum_list (map Montant g)"

definition mean_Montant :: "row list \<Rightarrow> rat" where
  "mean_Montant g = mean (map Montant g)"

definition sum_Quantite :: "row list \<Rightarrow> int" where
  "sum_Quantite g = sum_list (map Quantite g)"

definition mean_Satisfaction :: "row list \<Rightarrow> rat" where
  "mean_Satisfaction g = mean (map (\<lambda>r. of_int (Satisfaction_Client r)) g)"

text \<open>
  \<^verbatim>\<open>sort_values(ascending=False)\<close>. pandas (\<^verbatim>\<open>nargsort\<close>) reverses the values, sorts them in
  ascending order and reverses the outcome. The ascending sort is modelled by insertion
  sort (\<^const>\<open>sort_key\<close>), which is what the default sort of numpy (an introsort) runs
  on arrays of at most 16 entries, and which is stable. For longer arrays the library
  promises no order among equal values: what is proved below about the order of equal
  values is proved of this stable sort.
\<close>

definition sort_values_desc :: "('k \<times> 'v::linorder) list \<Rightarrow> ('k \<times> 'v) list" where
  "sort_values_desc kv = rev (sort_key snd (rev kv))"

text \<open>\<^verbatim>\<open>Series.unique()\<close>: the distinct values in the order of their first appearance.\<close>

primrec unique :: "'a list \<Rightarrow> 'a list" where
  "unique [] = []"
| "unique (x # xs) = x # filter (\<lambda>y. y \<noteq> x) (unique xs)"

text \<open>
  \<^verbatim>\<open>Series.value_counts()\<close>: one entry per distinct value, found in the order of first
  appearance, then sorted by descending count with the same \<^verbatim>\<open>sort_values\<close>.
\<close>

definition value_counts :: "'a list \<Rightarrow> ('a \<times> nat) list" where
  "value_counts xs = sort_values_desc (map (\<lambda>k. (k, count_list xs k)) (unique xs))"

text \<open>\<^verbatim>\<open>sort_index()\<close>: ascending by the label.\<close>

definition sort_index :: "('k::linorder \<times> 'v) list \<Rightarrow> ('k \<times> 'v) list" where
  "sort_index kv = sort_key fst kv"

text \<open>
  \<^verbatim>\<open>round(2)\<close>: numpy rounds the value times 100 to the nearest integer, halves to the even
  one, and divides by 100.
\<close>

definition rint :: "rat \<Rightarrow> int" where
  "rint x =
     (let f = \<lfloor>x\<rfloor>; d = x - of_int f
      in if d < 1 / 2 then f else if 1 / 2 < d then f + 1 else if even f then f else f + 1)"

definition round2 :: "rat \<Rightarrow> rat" where
  "round2 x = of_int (rint (x * 100)) / 100"

text \<open>
  \<^verbatim>\<open>idxmax()\<close>: the label of the first greatest value; pandas raises \<^verbatim>\<open>ValueError\<close> on an
  empty series.
\<close>

datatype error = ValueError

fun idxmax_from :: "'k \<times> nat \<Rightarrow> ('k \<times> nat) list \<Rightarrow> 'k" where
  "idxmax_from best [] = fst best"
| "idxmax_from best (x # xs) =
     (if snd best < snd x then idxmax_from x xs else idxmax_from best xs)"

definition idxmax :: "('k \<times> nat) list \<Rightarrow> error + 'k" where
  "idxmax kv = (case kv of [] \<Rightarrow> Inl ValueError | x # xs \<Rightarrow> Inr (idxmax_from x xs))"

section \<open>The views of \<^verbatim>\<open>update_all\<close> (lines 211-324)\<close>

text \<open>
  Each definition carries the name of the source's variable and takes the rows of
  \<^verbatim>\<open>dff\<close>. A chart is modelled by the series it draws; the source draws an empty
  \<^verbatim>\<open>go.Figure()\<close> exactly when that series is empty.
\<close>

definition total_ventes :: "row list \<Rightarrow> rat" where
  "total_ventes d = sum_list (map Montant d)"

definition nb_transactions :: "row list \<Rightarrow> nat" where
  "nb_transactions d = length d"

definition vente_moyenne :: "row list \<Rightarrow> rat" where
  "vente_moyenne d = (if 0 < nb_transactions d then mean (map Montant d) else 0)"

definition satisfaction_moyenne :: "row list \<Rightarrow> rat" where
  "satisfaction_moyenne d =
     (if 0 < nb_transactions d then mean (map (\<lambda>r. of_int (Satisfaction_Client r)) d) else 0)"

text \<open>\<^verbatim>\<open>.dt.date\<close>: the day of a timestamp; a row without a timestamp has no day.\<close>

definition date_of :: "int \<Rightarrow> int" where
  "date_of t = t div ns_per_day"

definition dt_date :: "row \<Rightarrow> int option" where
  "dt_date r = map_option date_of (Date_Transaction r)"

definition daily :: "row list \<Rightarrow> (int \<times> rat) list" where
  "daily d = groupby_agg dt_date sum_Montant d"

definition sales_by_cat :: "row list \<Rightarrow> (string \<times> rat) list" where
  "sales_by_cat d = sort_values_desc (groupby_agg (\<lambda>r. Some (Categorie_Produit r)) sum_Montant d)"

definition sales_store :: "row list \<Rightarrow> (string \<times> rat) list" where
  "sales_store d = sort_values_desc (groupby_agg (\<lambda>r. Some (Magasin r)) sum_Montant d)"

definition avg_store :: "row list \<Rightarrow> (string \<times> rat) list" where
  "avg_store d = sort_values_desc (groupby_agg (\<lambda>r. Some (Magasin r)) mean_Montant d)"

text \<open>
  The store table: per store, \<^verbatim>\<open>Ventes_Totales\<close> (sum of the amounts) and
  \<^verbatim>\<open>Nb_Transactions\<close> (count of the amounts, none of which is missing after cleaning).
\<close>

definition store_table_df :: "row list \<Rightarrow> (string \<times> rat \<times> nat) list" where
  "store_table_df d = groupby_agg (\<lambda>r. Some (Magasin r)) (\<lambda>g. (sum_Montant g, length g)) d"

definition store_table_columns :: "string list" where
  "store_table_columns = [''Magasin'', ''Ventes_Totales'', ''Nb_Transactions'']"

definition qty_cat :: "row list \<Rightarrow> (string \<times> int) list" where
  "qty_cat d = sort_values_desc (groupby_agg (\<lambda>r. Some (Categorie_Produit r)) sum_Quantite d)"

definition stacked :: "row list \<Rightarrow> ((string \<times> string) \<times> rat) list" where
  "stacked d = groupby_agg (\<lambda>r. Some (Categorie_Produit r, Magasin r)) sum_Montant d"

text \<open>
  Top 5 products per category (lines 273-293). \<^verbatim>\<open>top_prod\<close> is the source's variable of
  that name before the rank column is added; \<^verbatim>\<open>range(1, len(top_prod)+1)\<close> numbers its
  rows. The loop over the sorted categories skips a category whose table is empty.
  The two texts the source shows in place of the tables are the constructors
  \<open>NoProductData\<close> (``Aucune donnee produit disponible pour le Top 5.'') and
  \<open>ProductColumnAbsent\<close> (``Colonne 'Produit' absente : impossible de generer le Top 5
  des produits par categorie.'').
\<close>

datatype top_child =
    CategoryTable string "(nat \<times> string \<times> int) list"
  | NoProductData
  | ProductColumnAbsent

definition top_prod :: "row list \<Rightarrow> (string \<times> int) list" where
  "top_prod sub = take 5 (sort_values_desc (groupby_agg Produit sum_Quantite sub))"

definition with_Rank :: "(string \<times> int) list \<Rightarrow> (nat \<times> string \<times> int) list" where
  "with_Rank tp = zip [1 ..< Suc (length tp)] tp"

fun top_tables :: "row list \<Rightarrow> string list \<Rightarrow> top_child list" where
  "top_tables d [] = []"
| "top_tables d (cat # cats) =
     (let tp = top_prod (filter (\<lambda>r. Categorie_Produit r = cat) d)
      in if tp = [] then top_tables d cats
         else CategoryTable cat (with_Rank tp) # top_tables d cats)"

definition top_products_children :: "dataframe \<Rightarrow> top_child list" where
  "top_products_children df =
     (if has_Produit df then
        (let children = top_tables (rows df) (sort (unique (map Categorie_Produit (rows df))))
         in if children = [] then [NoProductData] else children)
      else [ProductColumnAbsent])"

definition pay_counts :: "row list \<Rightarrow> (string \<times> nat) list" where
  "pay_counts d = value_counts (map Mode_Paiement d)"

text \<open>
  The payment KPI: nothing to show on an empty series, otherwise the most used mode and
  its share in percent (\<^verbatim>\<open>pay_counts.max() / pay_counts.sum() * 100\<close>).
\<close>

datatype payment_kpi = NoPaymentData | TopMode string rat

definition top_payment_html :: "(string \<times> nat) list \<Rightarrow> error + payment_kpi" where
  "top_payment_html pc =
     (if pc = [] then Inr NoPaymentData
      else case idxmax pc of
             Inl e \<Rightarrow> Inl e
           | Inr top_mode \<Rightarrow>
               Inr (TopMode top_mode
                     (of_nat (Max (set (map snd pc))) / of_nat (sum_list (map snd pc)) * 100)))"

definition sat_store :: "row list \<Rightarrow> (string \<times> rat) list" where
  "sat_store d = sort_values_desc (groupby_agg (\<lambda>r. Some (Magasin r)) mean_Satisfaction d)"

definition sat_cat :: "row list \<Rightarrow> (string \<times> rat) list" where
  "sat_cat d =
     sort_values_desc (groupby_agg (\<lambda>r. Some (Categorie_Produit r)) mean_Satisfaction d)"

text \<open>
  The satisfaction table (lines 320-324): score, count and percentage, ascending by
  score; \<^verbatim>\<open>total\<close> is the sum of the counts, or 1 when the table is empty.
\<close>

definition sat_dist :: "row list \<Rightarrow> (int \<times> nat) list" where
  "sat_dist d = sort_index (value_counts (map Satisfaction_Client d))"

definition sat_total :: "(int \<times> nat) list \<Rightarrow> nat" where
  "sat_total sd = (if sd \<noteq> [] then sum_list (map snd sd) else 1)"

definition sat_table_data :: "row list \<Rightarrow> (int \<times> nat \<times> rat) list" where
  "sat_table_data d =
     (let sd = sat_dist d; total = sat_total sd
      in map (\<lambda>(score, n). (score, n, round2 (of_nat n / of_nat total * 100))) sd)"

text \<open>
  The outputs of the callback, in the order of its \<^verbatim>\<open>return\<close>. The four KPI cards are
  modelled by the four numbers they show, and the payment card by the mode and the share
  it shows; how the cards print a number is left out.
\<close>

record outputs =
  out_total_ventes :: rat
  out_nb_transactions :: nat
  out_vente_moyenne :: rat
  out_satisfaction_moyenne :: rat
  out_fig_daily :: "(int \<times> rat) list"
  out_fig_cat :: "(string \<times> rat) list"
  out_fig_store_pie :: "(string \<times> rat) list"
  out_fig_avg_store :: "(string \<times> rat) list"
  out_store_table_data :: "(string \<times> rat \<times> nat) list"
  out_store_table_columns :: "string list"
  out_fig_qty_cat :: "(string \<times> int) list"
  out_fig_stacked :: "((string \<times> string) \<times> rat) list"
  out_top_products_children :: "top_child list"
  out_fig_pay :: "(string \<times> nat) list"
  out_top_payment_html :: payment_kpi
  out_fig_sat_store :: "(string \<times> rat) list"
  out_fig_sat_cat :: "(string \<times> rat) list"
  out_sat_table_data :: "(int \<times> nat \<times> rat) list"

definition update_all ::
  "dataframe \<Rightarrow> int option \<Rightarrow> int option \<Rightarrow> string list option \<Rightarrow> string list option \<Rightarrow>
   string list option \<Rightarrow> error + outputs" where
  "update_all df start_date end_date stores cats pays =
     (let f = dff df start_date end_date stores cats pays; d = rows f
      in case top_payment_html (pay_counts d) of
           Inl e \<Rightarrow> Inl e
         | Inr pay_kpi \<Rightarrow>
             Inr \<lparr>out_total_ventes = total_ventes d,
                  out_nb_transactions = nb_transactions d,
                  out_vente_moyenne = vente_moyenne d,
                  out_satisfaction_moyenne = satisfaction_moyenne d,
                  out_fig_daily = daily d,
                  out_fig_cat = sales_by_cat d,
                  out_fig_store_pie = sales_store d,
                  out_fig_avg_store = avg_store d,
                  out_store_table_data = store_table_df d,
                  out_store_table_columns = store_table_columns,
                  out_fig_qty_cat = qty_cat d,
                  out_fig_stacked = stacked d,
                  out_top_products_children = top_products_children f,
                  out_fig_pay = pay_counts d,
                  out_top_payment_html = pay_kpi,
                  out_fig_sat_store = sat_store d,
                  out_fig_sat_cat = sat_cat d,
                  out_sat_table_data = sat_table_data d\<rparr>)"

section \<open>Notions used to state the properties\<close>

text \<open>The five tests of the filter on one row, taken together.\<close>

definition passes ::
  "int option \<Rightarrow> int option \<Rightarrow> string list option \<Rightarrow> string list option \<Rightarrow>
   string list option \<Rightarrow> row \<Rightarrow> bool" where
  "passes start_date end_date stores cats pays r =
     ((case start_date of None \<Rightarrow> True
       | Some d \<Rightarrow> ge_datetime (Date_Transaction r) (to_datetime d)) \<and>
      (case end_date of None \<Rightarrow> True
       | Some d \<Rightarrow> le_datetime (Date_Transaction r) (to_datetime d + Timedelta_days 1)) \<and>
      (case stores of None \<Rightarrow> True | Some vs \<Rightarrow> vs = [] \<or> Magasin r \<in> set vs) \<and>
      (case cats of None \<Rightarrow> True | Some vs \<Rightarrow> vs = [] \<or> Categorie_Produit r \<in> set vs) \<and>
      (case pays of None \<Rightarrow> True | Some vs \<Rightarrow> vs = [] \<or> Mode_Paiement r \<in> set vs))"

text \<open>A record stamped 2024-01-03 00:00:00 (day 19725 since 1970-01-01).\<close>

definition C1_row :: row where
  "C1_row = \<lparr>ID_Client = ''c1'', Date_Transaction = Some (to_datetime 19725), Montant = 10,
     Magasin = ''storeA'', Categorie_Produit = ''catX'', Quantite = 1, Mode_Paiement = ''cash'',
     Satisfaction_Client = 4, Produit = None\<rparr>"

text \<open>
  The order of a series sorted by descending value in which entries of equal value
  follow the order \<open>R\<close> of their labels.
\<close>

definition desc_then :: "('k \<Rightarrow> 'k \<Rightarrow> bool) \<Rightarrow> ('k \<times> 'v::linorder) \<Rightarrow> ('k \<times> 'v) \<Rightarrow> bool" where
  "desc_then R a b = (snd b < snd a \<or> (snd a = snd b \<and> R (fst a) (fst b)))"



text \<open>The sum of the \<^verbatim>\<open>pct\<close> column of the satisfaction table.\<close>

definition pct_sum :: "row list \<Rightarrow> rat" where
  "pct_sum d = sum_list (map (\<lambda>(score, n, pct). pct) (sat_table_data d))"

text \<open>Six records with the six scores 0 to 5.\<close>

definition C8_rows :: "row list" where
  "C8_rows = map (\<lambda>s. C1_row\<lparr>Satisfaction_Client := s\<rparr>) [0, 1, 2, 3, 4, 5]"

text \<open>
  The products of a category (those of its rows that have one) and the quantity sold of
  a product within a category.
\<close>

definition products_of :: "row list \<Rightarrow> string \<Rightarrow> string set" where
  "products_of d cat = set (List.map_filter Produit (filter (\<lambda>r. Categorie_Produit r = cat) d))"

definition product_total :: "row list \<Rightarrow> string \<Rightarrow> string \<Rightarrow> int" where
  "product_total d cat p =
     sum_list (map Quantite (filter (\<lambda>r. Categorie_Produit r = cat \<and> Produit r = Some p) d))"

text \<open>
  Dense ranking as the specification words it (``dense rank 1..k'', tied sums share a
  rank), over a series already in descending order: the rank grows by one where the
  value changes. It is not taken from the source, which numbers the rows by position.
\<close>

fun dense_rank_from :: "nat \<Rightarrow> int \<Rightarrow> int list \<Rightarrow> nat list" where
  "dense_rank_from n prev [] = []"
| "dense_rank_from n prev (v # vs) =
     (if v = prev then n # dense_rank_from n prev vs
      else Suc n # dense_rank_from (Suc n) v vs)"

definition dense_rank :: "int list \<Rightarrow> nat list" where
  "dense_rank vs = (case vs of [] \<Rightarrow> [] | v # rest \<Rightarrow> 1 # dense_rank_from 1 v rest)"

text \<open>The categories of the tables of the top-5 area, in their order.\<close>

definition table_categories :: "top_child list \<Rightarrow> string list" where
  "table_categories children =
     concat (map (\<lambda>ch. case ch of CategoryTable c tbl \<Rightarrow> [c] | _ \<Rightarrow> []) children)"

text \<open>A frame with the product column: one category, two products that sold 3 each.\<close>

definition C2_df :: dataframe where
  "C2_df = \<lparr>rows = [C1_row\<lparr>Produit := Some ''p1'', Quantite := 3\<rparr>,
                     C1_row\<lparr>Produit := Some ''p2'', Quantite := 3\<rparr>],
            has_Produit = True\<rparr>"

section \<open>Properties of the filter\<close>

lemma isin_filter_idem: "isin_filter col sel (isin_filter col sel rs) = isin_filter col sel rs"
  by (simp add: isin_filter_def split: option.splits)

lemma isin_filter_as_filter:
  "isin_filter col sel rs =
     filter (\<lambda>r. case sel of None \<Rightarrow> True | Some vs \<Rightarrow> vs = [] \<or> col r \<in> set vs) rs"
  by (simp add: isin_filter_def split: option.splits)

lemma start_filter_as_filter:
  "start_filter s rs =
     filter (\<lambda>r. case s of None \<Rightarrow> True
                  | Some d \<Rightarrow> ge_datetime (Date_Transaction r) (to_datetime d)) rs"
  by (simp add: start_filter_def split: option.splits)

lemma end_filter_as_filter:
  "end_filter e rs =
     filter (\<lambda>r. case e of None \<Rightarrow> True
                  | Some d \<Rightarrow> le_datetime (Date_Transaction r) (to_datetime d + Timedelta_days 1)) rs"
  by (simp add: end_filter_def split: option.splits)

lemma dff_rows_as_filter:
  "dff_rows rs s e st c p = filter (passes s e st c p) rs"
  unfolding dff_rows_def isin_filter_as_filter start_filter_as_filter end_filter_as_filter
    filter_filter passes_def
  by (rule filter_cong) auto

lemma isin_filter_None: "isin_filter col None rs = rs"
  by (simp add: isin_filter_def)

lemma date_filter_admits:
  "r \<in> set (end_filter (Some e) (start_filter s rs)) \<longleftrightarrow>
     r \<in> set rs \<and>
     (\<exists>t. Date_Transaction r = Some t \<and> t \<le> to_datetime e + Timedelta_days 1 \<and>
          (case s of None \<Rightarrow> True | Some d \<Rightarrow> to_datetime d \<le> t))"
  by (auto simp: end_filter_def start_filter_def le_datetime_def ge_datetime_def
      split: option.splits)

text \<open>
  Claim C1 (the end date is an exclusive bound one day later: no record of the day after
  \<^verbatim>\<open>end_date\<close> is admitted). The source compares with \<^verbatim>\<open><=\<close> (line 203), so the bound is
  inclusive (lemma \<open>date_filter_admits\<close>): with \<^verbatim>\<open>end_date\<close> 2024-01-02 (day 19724) the
  record stamped 2024-01-03 00:00:00, which lies on the day after, passes the filter.
\<close>

theorem C1_midnight_after_end_date_admitted:
  "date_of (to_datetime 19725) = 19724 + 1 \<and>
   rows (dff \<lparr>rows = [C1_row], has_Produit = False\<rparr> None (Some 19724) None None None) = [C1_row]"
  by (simp add: dff_def dff_rows_def isin_filter_def start_filter_def end_filter_def
      le_datetime_def C1_row_def to_datetime_def Timedelta_days_def date_of_def ns_per_day_def)

text \<open>
  Claim C6 (conjunction): filtering by a selection of stores \<open>A\<close> alone and then by a
  selection of categories \<open>B\<close> alone gives the frame that one filtering by both gives;
  and in general the filter keeps exactly the rows that pass all five tests together.
\<close>

theorem C6_filter_conjunction:
  "dff (dff df None None A None None) None None None B None = dff df None None A B None \<and>
   rows (dff df s e st c p) = filter (passes s e st c p) (rows df)"
proof
  show "dff (dff df None None A None None) None None None B None = dff df None None A B None"
    by (simp add: dff_def dff_rows_def start_filter_def end_filter_def isin_filter_None)
  show "rows (dff df s e st c p) = filter (passes s e st c p) (rows df)"
    by (simp add: dff_def dff_rows_as_filter)
qed

text \<open>
  Claim C7 (idempotence): filtering the filtered frame again with the same selections
  changes nothing.
\<close>

theorem C7_filter_idempotent:
  "dff (dff df s e st c p) s e st c p = dff df s e st c p"
  by (simp add: dff_def dff_rows_as_filter)

section \<open>Properties of the loader\<close>

lemma check_columns_names_missing:
  "''Date_Transaction'' \<in> set columns \<Longrightarrow> \<not> expected_cols \<subseteq> set columns \<Longrightarrow>
   load_checks True columns =
     Inl (MissingColumns (expected_cols - set columns) (sorted_list_of_set expected_cols))"
  by (auto simp: load_checks_def read_excel_header_def parse_dates_def check_columns_def)

lemma missing_Quantite_is_named:
  "load_checks True
     [''ID_Client'', ''Date_Transaction'', ''Montant'', ''Magasin'', ''Categorie_Produit'',
      ''Mode_Paiement'', ''Satisfaction_Client'']
   = Inl (MissingColumns {''Quantite''} (sorted_list_of_set expected_cols))"
proof -
  have "expected_cols -
      set [''ID_Client'', ''Date_Transaction'', ''Montant'', ''Magasin'', ''Categorie_Produit'',
           ''Mode_Paiement'', ''Satisfaction_Client''] = {''Quantite''}"
    by (auto simp: expected_cols_def)
  then show ?thesis
    by (simp add: load_checks_def read_excel_header_def parse_dates_def check_columns_def)
qed

lemma sorted_expected:
  "sorted_list_of_set expected_cols =
     [''Categorie_Produit'', ''Date_Transaction'', ''ID_Client'', ''Magasin'', ''Mode_Paiement'',
      ''Montant'', ''Quantite'', ''Satisfaction_Client'']"
  by code_simp

text \<open>
  Claim C9 (a source that lacks a required column stops with the schema message that
  names the missing columns). The message of line 30 is reached only when
  \<^verbatim>\<open>Date_Transaction\<close> is present (lemma \<open>check_columns_names_missing\<close>; lemma
  \<open>missing_Quantite_is_named\<close> for a sheet that lacks \<^verbatim>\<open>Quantite\<close> alone): for a sheet
  that lacks \<^verbatim>\<open>Date_Transaction\<close>, \<^verbatim>\<open>read_excel\<close> on line 23 has already raised its own
  \<^verbatim>\<open>ValueError\<close>, although \<^verbatim>\<open>expected_cols\<close> lists that column.
\<close>

theorem C9_missing_date_column_raises_in_read_excel:
  "load_checks True
     [''ID_Client'', ''Montant'', ''Magasin'', ''Categorie_Produit'', ''Quantite'',
      ''Mode_Paiement'', ''Satisfaction_Client'']
   = Inl (MissingParseDates [''Date_Transaction''])"
  by (simp add: load_checks_def read_excel_header_def parse_dates_def)

lemma length_clean_Montant: "length (clean_Montant parse col) = length col"
  by (simp add: clean_Montant_def fillna_def to_numeric_def)

lemma length_clean_text: "length (clean_text repr col) = length col"
  by (simp add: clean_text_def fillna_def astype_str_def)

lemma astype_int_length: "astype_int xs = Inr ys \<Longrightarrow> length ys = length xs"
  by (induction xs arbitrary: ys rule: astype_int.induct) (auto split: sum.splits)

lemma clean_Montant_default:
  "clean_Montant parse [NaN] = [Finite 0] \<and>
   (parse s = None \<longrightarrow> clean_Montant parse [Text s] = [Finite 0])"
  by (simp add: clean_Montant_def fillna_def to_numeric_def)

lemma clean_int_default:
  "clean_int parse [NaN] = Inr [0] \<and>
   (parse s = None \<longrightarrow> clean_int parse [Text s] = Inr [0])"
  by (simp add: clean_int_def fillna_def to_numeric_def trunc_def)

lemma clean_int_raises_on_infinity:
  "parse s = Some PosInf \<Longrightarrow> clean_int parse [Number 2, Text s] = Inl IntCastingNaNError"
  by (simp add: clean_int_def to_numeric_def fillna_def)

text \<open>
  Claim C10 (cleaning never raises; a missing text cell becomes the empty string). The
  source writes \<^verbatim>\<open>.astype(str).fillna('')\<close> (lines 35-38): \<^verbatim>\<open>astype(str)\<close> runs first and
  turns the empty cell into the text \<^verbatim>\<open>'nan'\<close>, so \<^verbatim>\<open>fillna('')\<close> finds nothing to fill.
  The numeric defaults are as claimed (lemmas \<open>clean_Montant_default\<close>,
  \<open>clean_int_default\<close>), no row is dropped (the \<open>length\<close> lemmas), and \<^verbatim>\<open>astype(int)\<close>
  raises on an infinite value (lemma \<open>clean_int_raises_on_infinity\<close>).
\<close>

theorem C10_empty_text_cell_becomes_nan:
  "clean_text repr [Text ''Lyon'', NaN] = [''Lyon'', ''nan'']"
  by (simp add: clean_text_def astype_str_def fillna_def)

section \<open>The callback returns\<close>

text \<open>
  The only step of the aggregation that can raise is \<^verbatim>\<open>idxmax\<close>, and the source calls it
  behind the test \<^verbatim>\<open>pay_counts.empty\<close>. So \<open>update_all\<close> returns its outputs for every
  frame and every selection, and each output is the view of the filtered frame.
\<close>

lemma top_payment_html_returns: "\<exists>kpi. top_payment_html pc = Inr kpi"
  by (cases pc) (simp_all add: top_payment_html_def idxmax_def)

lemma update_all_returns:
  fixes df s e st c p
  defines "f \<equiv> dff df s e st c p"
  shows "\<exists>pay_kpi. update_all df s e st c p =
     Inr \<lparr>out_total_ventes = total_ventes (rows f),
          out_nb_transactions = nb_transactions (rows f),
          out_vente_moyenne = vente_moyenne (rows f),
          out_satisfaction_moyenne = satisfaction_moyenne (rows f),
          out_fig_daily = daily (rows f),
          out_fig_cat = sales_by_cat (rows f),
          out_fig_store_pie = sales_store (rows f),
          out_fig_avg_store = avg_store (rows f),
          out_store_table_data = store_table_df (rows f),
          out_store_table_columns = store_table_columns,
          out_fig_qty_cat = qty_cat (rows f),
          out_fig_stacked = stacked (rows f),
          out_top_products_children = top_products_children f,
          out_fig_pay = pay_counts (rows f),
          out_top_payment_html = pay_kpi,
          out_fig_sat_store = sat_store (rows f),
          out_fig_sat_cat = sat_cat (rows f),
          out_sat_table_data = sat_table_data (rows f)\<rparr>"
proof -
  obtain kpi where "top_payment_html (pay_counts (rows f)) = Inr kpi"
    using top_payment_html_returns by blast
  then show ?thesis
    by (simp add: update_all_def Let_def f_def)
qed

lemma update_all_top_products:
  "\<exists>out. update_all df s e st c p = Inr out \<and>
     out_top_products_children out = top_products_children (dff df s e st c p)"
  using update_all_returns [of df s e st c p] by auto

section \<open>The empty snapshot\<close>

lemma groupby_agg_Nil: "groupby_agg key agg [] = []"
  by (simp add: groupby_agg_def group_keys_def List.map_filter_def)

lemma sort_values_desc_Nil: "sort_values_desc [] = []"
  by (simp add: sort_values_desc_def)

lemma value_counts_Nil: "value_counts [] = []"
  by (simp add: value_counts_def sort_values_desc_def)

lemma views_Nil:
  "total_ventes [] = 0" "nb_transactions [] = 0" "vente_moyenne [] = 0"
  "satisfaction_moyenne [] = 0" "daily [] = []" "sales_by_cat [] = []" "sales_store [] = []"
  "avg_store [] = []" "store_table_df [] = []" "qty_cat [] = []" "stacked [] = []"
  "pay_counts [] = []" "sat_store [] = []" "sat_cat [] = []" "sat_table_data [] = []"
  by (simp_all add: total_ventes_def nb_transactions_def vente_moyenne_def
      satisfaction_moyenne_def daily_def sales_by_cat_def sales_store_def avg_store_def
      store_table_df_def qty_cat_def stacked_def pay_counts_def sat_store_def sat_cat_def
      sat_table_data_def sat_dist_def sort_index_def groupby_agg_Nil sort_values_desc_Nil
      value_counts_Nil)

lemma top_products_children_Nil:
  "rows f = [] \<Longrightarrow>
   top_products_children f = (if has_Produit f then [NoProductData] else [ProductColumnAbsent])"
  by (simp add: top_products_children_def)

text \<open>
  Claim C3 (empty-input contract): when the selections match no record, the callback
  returns (it raises nothing), the count and the two averages are 0, the total is 0,
  every grouped series and table is empty, the payment KPI is the ``no data'' text, and
  the top-5 area holds the one text that fits the frame (no product data, or product
  column absent).
\<close>

theorem C3_empty_snapshot:
  assumes "dff_rows (rows df) s e st c p = []"
  shows "update_all df s e st c p =
     Inr \<lparr>out_total_ventes = 0, out_nb_transactions = 0, out_vente_moyenne = 0,
          out_satisfaction_moyenne = 0, out_fig_daily = [], out_fig_cat = [],
          out_fig_store_pie = [], out_fig_avg_store = [], out_store_table_data = [],
          out_store_table_columns = [''Magasin'', ''Ventes_Totales'', ''Nb_Transactions''],
          out_fig_qty_cat = [], out_fig_stacked = [],
          out_top_products_children =
            (if has_Produit df then [NoProductData] else [ProductColumnAbsent]),
          out_fig_pay = [], out_top_payment_html = NoPaymentData, out_fig_sat_store = [],
          out_fig_sat_cat = [], out_sat_table_data = []\<rparr>"
proof -
  have f: "rows (dff df s e st c p) = []" "has_Produit (dff df s e st c p) = has_Produit df"
    using assms by (simp_all add: dff_def)
  show ?thesis
    unfolding update_all_def Let_def f views_Nil
    by (simp add: top_payment_html_def top_products_children_Nil f store_table_columns_def)
qed

theorem C3_empty_snapshot_witness:
  "dff_rows [C1_row] None None (Some [''storeZ'']) None None = [] \<and>
   update_all \<lparr>rows = [C1_row], has_Produit = False\<rparr> None None (Some [''storeZ'']) None None =
     Inr \<lparr>out_total_ventes = 0, out_nb_transactions = 0, out_vente_moyenne = 0,
          out_satisfaction_moyenne = 0, out_fig_daily = [], out_fig_cat = [],
          out_fig_store_pie = [], out_fig_avg_store = [], out_store_table_data = [],
          out_store_table_columns = [''Magasin'', ''Ventes_Totales'', ''Nb_Transactions''],
          out_fig_qty_cat = [], out_fig_stacked = [],
          out_top_products_children = [ProductColumnAbsent],
          out_fig_pay = [], out_top_payment_html = NoPaymentData, out_fig_sat_store = [],
          out_fig_sat_cat = [], out_sat_table_data = []\<rparr>"
proof -
  have h: "dff_rows (rows \<lparr>rows = [C1_row], has_Produit = False\<rparr>) None None
             (Some [''storeZ'']) None None = []"
    by (simp add: dff_rows_def start_filter_def end_filter_def isin_filter_def C1_row_def)
  show ?thesis
    using h C3_empty_snapshot [OF h] by simp
qed

section \<open>Order of the sorted series\<close>

lemma insort_key_snd_ties:
  assumes "sorted_wrt (\<lambda>a b. desc_then R b a) L" and "\<forall>y\<in>set L. R (fst y) (fst x)"
  shows "sorted_wrt (\<lambda>a b. desc_then R b a) (insort_key snd x L)"
  using assms
proof (induction L)
  case Nil
  then show ?case by simp
next
  case (Cons y ys)
  show ?case
  proof (cases "snd x \<le> snd y")
    case True
    have "desc_then R z x" if "z \<in> set (y # ys)" for z
    proof -
      have "snd y \<le> snd z"
        using that Cons.prems(1) by (auto simp: desc_then_def)
      with True have "snd x \<le> snd z" by simp
      moreover have "R (fst z) (fst x)" using that Cons.prems(2) by auto
      ultimately show ?thesis by (auto simp: desc_then_def)
    qed
    with True Cons.prems(1) show ?thesis by simp
  next
    case False
    then have "desc_then R x y" by (auto simp: desc_then_def not_le)
    moreover have "sorted_wrt (\<lambda>a b. desc_then R b a) (insort_key snd x ys)"
      using Cons by simp
    ultimately show ?thesis
      using False Cons.prems(1) by (auto simp: set_insort_key)
  qed
qed

lemma sort_key_rev_ties:
  assumes "sorted_wrt (\<lambda>a b. R (fst a) (fst b)) kv"
  shows "sorted_wrt (\<lambda>a b. desc_then R b a) (sort_key snd (rev kv))"
  using assms
proof (induction kv rule: rev_induct)
  case Nil
  then show ?case by simp
next
  case (snoc x kv)
  from snoc.prems have s: "sorted_wrt (\<lambda>a b. R (fst a) (fst b)) kv"
    and b: "\<forall>y\<in>set kv. R (fst y) (fst x)"
    by (auto simp: sorted_wrt_append)
  have "sorted_wrt (\<lambda>a b. desc_then R b a) (insort_key snd x (sort_key snd (rev kv)))"
    by (rule insort_key_snd_ties) (use snoc.IH s b in auto)
  then show ?case by simp
qed

lemma sort_values_desc_ties:
  assumes "sorted_wrt (\<lambda>a b. R (fst a) (fst b)) kv"
  shows "sorted_wrt (desc_then R) (sort_values_desc kv)"
  using sort_key_rev_ties [OF assms] by (simp add: sort_values_desc_def sorted_wrt_rev)




lemma unique_set: "set (unique xs) = set xs"
  by (induction xs) auto





section \<open>The satisfaction table\<close>

lemma rint_error: "\<bar>of_int (rint x) - x\<bar> \<le> 1 / 2"
proof -
  have "of_int \<lfloor>x\<rfloor> \<le> x" "x < of_int \<lfloor>x\<rfloor> + 1" by linarith+
  then show ?thesis
    by (auto simp: rint_def Let_def abs_le_iff)
qed

lemma round2_error: "\<bar>round2 x - x\<bar> \<le> 1 / 200"
proof -
  have "\<bar>of_int (rint (x * 100)) - x * 100\<bar> \<le> 1 / 2" by (rule rint_error)
  then show ?thesis
    by (simp add: round2_def abs_le_iff field_simps)
qed

lemma sum_round2_error:
  "\<bar>sum_list (map (\<lambda>x. round2 (f x)) xs) - sum_list (map f xs)\<bar> \<le> of_nat (length xs) / 200"
proof (induction xs)
  case Nil
  then show ?case by simp
next
  case (Cons a xs)
  let ?S1 = "sum_list (map (\<lambda>x. round2 (f x)) xs)" and ?S2 = "sum_list (map f xs)"
  have "\<bar>(round2 (f a) + ?S1) - (f a + ?S2)\<bar> = \<bar>(round2 (f a) - f a) + (?S1 - ?S2)\<bar>"
    by (simp add: algebra_simps)
  also have "\<dots> \<le> \<bar>round2 (f a) - f a\<bar> + \<bar>?S1 - ?S2\<bar>"
    by (rule abs_triangle_ineq)
  also have "\<dots> \<le> 1 / 200 + of_nat (length xs) / 200"
    by (rule add_mono) (rule round2_error, rule Cons.IH)
  finally show ?case
    by (simp add: add_divide_distrib)
qed

lemma sum_list_insort_key:
  "sum_list (map g (insort_key f x xs)) = g x + sum_list (map g xs)"
  for g :: "'a \<Rightarrow> 'b::comm_monoid_add"
  by (induction xs) (auto simp: add_ac)

lemma sum_list_sort_key:
  "sum_list (map g (sort_key f xs)) = sum_list (map g xs)"
  for g :: "'a \<Rightarrow> 'b::comm_monoid_add"
  by (induction xs) (auto simp: sum_list_insort_key)

lemma sum_list_sort_values_desc:
  "sum_list (map g (sort_values_desc kv)) = sum_list (map g kv)"
  for g :: "'a \<times> 'v::linorder \<Rightarrow> 'b::comm_monoid_add"
proof -
  have "sum_list (map g (sort_values_desc kv)) = sum_list (rev (map g (sort_key snd (rev kv))))"
    by (simp add: sort_values_desc_def rev_map)
  also have "\<dots> = sum_list (map g (rev kv))"
    by (simp only: sum_list_rev sum_list_sort_key)
  also have "\<dots> = sum_list (map g kv)"
    by (simp only: rev_map [symmetric] sum_list_rev)
  finally show ?thesis .
qed

lemma unique_distinct: "distinct (unique xs)"
  by (induction xs) (auto simp: unique_set)

lemma sum_count_unique: "sum_list (map (count_list xs) (unique xs)) = length xs"
proof -
  have "sum_list (map (count_list xs) (unique xs)) = sum (count_list xs) (set (unique xs))"
    by (rule sum_list_distinct_conv_sum_set) (rule unique_distinct)
  also have "\<dots> = length xs"
    by (simp add: unique_set sum_count_set)
  finally show ?thesis .
qed

lemma value_counts_sum: "sum_list (map snd (value_counts xs)) = length xs"
  by (simp add: value_counts_def sum_list_sort_values_desc comp_def sum_count_unique)

lemma length_value_counts: "length (value_counts xs) = card (set xs)"
  by (simp add: value_counts_def sort_values_desc_def distinct_card [OF unique_distinct, symmetric]
      unique_set)

lemma sat_dist_sum: "sum_list (map snd (sat_dist d)) = length d"
  by (simp add: sat_dist_def sort_index_def sum_list_sort_key value_counts_sum)

lemma length_sat_dist: "length (sat_dist d) = card (Satisfaction_Client ` set d)"
  by (simp add: sat_dist_def sort_index_def length_value_counts)

lemma sat_dist_Nil_iff: "sat_dist d = [] \<longleftrightarrow> d = []"
proof -
  have "sat_dist d = [] \<longleftrightarrow> length (sat_dist d) = 0" by simp
  also have "\<dots> \<longleftrightarrow> d = []" by (simp add: length_sat_dist)
  finally show ?thesis .
qed

lemma sat_total_eq: "sat_total (sat_dist d) = (if d = [] then 1 else length d)"
  by (simp add: sat_total_def sat_dist_Nil_iff sat_dist_sum)

lemma exact_pct_sum_gen:
  "sum_list (map (\<lambda>(score, n). of_nat n / t * (100::rat)) L)
     = of_nat (sum_list (map snd L)) / t * 100"
  by (induction L) (auto simp: add_divide_distrib distrib_right)

lemma exact_pct_sum:
  assumes "d \<noteq> []"
  shows "sum_list (map (\<lambda>(score, n). of_nat n / of_nat (length d) * (100::rat)) (sat_dist d)) = 100"
  using assms by (subst exact_pct_sum_gen) (simp add: sat_dist_sum)

lemma pct_sum_eq:
  "pct_sum d =
     sum_list (map (\<lambda>p. round2 (case p of (score, n) \<Rightarrow>
        of_nat n / of_nat (sat_total (sat_dist d)) * 100)) (sat_dist d))"
  by (simp add: pct_sum_def sat_table_data_def Let_def comp_def case_prod_beta)

text \<open>
  Claim C8, as amended. The denominator of the percentages is the number of rows of the
  snapshot, and 1 when the snapshot is empty. Each percentage is rounded to two
  decimals, so for a non-empty snapshot the percentages add up to 100 within 0.005 times
  the number of distinct scores (in exact arithmetic), not within 0.01.
\<close>

theorem C8_percentages:
  "sat_total (sat_dist d) = (if d = [] then 1 else length d) \<and>
   (d \<noteq> [] \<longrightarrow>
      \<bar>pct_sum d - 100\<bar> \<le> of_nat (card (Satisfaction_Client ` set d)) * (5 / 1000))"
proof (intro conjI impI)
  show "sat_total (sat_dist d) = (if d = [] then 1 else length d)"
    by (rule sat_total_eq)
next
  assume ne: "d \<noteq> []"
  let ?e = "\<lambda>p. case p of (score, n) \<Rightarrow> of_nat n / of_nat (length d) * (100::rat)"
  have "pct_sum d = sum_list (map (\<lambda>p. round2 (?e p)) (sat_dist d))"
    using ne by (simp add: pct_sum_eq sat_total_eq)
  moreover have "sum_list (map ?e (sat_dist d)) = 100"
    using exact_pct_sum [OF ne] by simp
  moreover have "\<bar>sum_list (map (\<lambda>p. round2 (?e p)) (sat_dist d)) - sum_list (map ?e (sat_dist d))\<bar>
      \<le> of_nat (length (sat_dist d)) / 200"
    by (rule sum_round2_error)
  ultimately show "\<bar>pct_sum d - 100\<bar> \<le> of_nat (card (Satisfaction_Client ` set d)) * (5 / 1000)"
    by (simp add: length_sat_dist)
qed

lemma C8_rows_table:
  "sat_table_data C8_rows =
     [(0, 1, 1667 / 100), (1, 1, 1667 / 100), (2, 1, 1667 / 100), (3, 1, 1667 / 100),
      (4, 1, 1667 / 100), (5, 1, 1667 / 100)]"
  by code_simp

text \<open>
  Claim C8, as stated, fails: six records with the scores 0 to 5 give six times 16.67,
  which is 100.02.
\<close>

theorem C8_six_scores_counterexample:
  "C8_rows \<noteq> [] \<and> pct_sum C8_rows = 10002 / 100 \<and> \<not> \<bar>pct_sum C8_rows - 100\<bar> \<le> 1 / 100"
  by (simp add: pct_sum_def C8_rows_table) (simp add: C8_rows_def)

theorem C8_percentages_witness:
  "C8_rows \<noteq> [] \<and> sat_total (sat_dist C8_rows) = 6 \<and> \<bar>pct_sum C8_rows - 100\<bar> \<le> 6 * (5 / 1000)"
proof -
  have ne: "C8_rows \<noteq> []" by (simp add: C8_rows_def)
  have len: "length C8_rows = 6" by (simp add: C8_rows_def)
  have c: "card (Satisfaction_Client ` set C8_rows) = 6"
    by (simp add: C8_rows_def C1_row_def)
  show ?thesis
    using C8_percentages [of C8_rows] ne len c by simp
qed

section \<open>The top-5 tables\<close>

lemma set_sort_values_desc: "set (sort_values_desc kv) = set kv"
  by (simp add: sort_values_desc_def)

lemma length_sort_values_desc: "length (sort_values_desc kv) = length kv"
  by (simp add: sort_values_desc_def)

lemma distinct_fst_sort_values_desc:
  "distinct (map fst (sort_values_desc kv)) = distinct (map fst kv)"
  by (simp add: sort_values_desc_def rev_map [symmetric] distinct_map)

lemma sort_values_desc_sorted: "sorted_wrt (\<lambda>a b. snd b \<le> snd a) (sort_values_desc kv)"
proof -
  have "sorted_wrt (desc_then (\<lambda>a b. True)) (sort_values_desc kv)"
    by (rule sort_values_desc_ties) simp
  then show ?thesis
    by (rule sorted_wrt_mono_rel [rotated]) (auto simp: desc_then_def)
qed

lemma group_keys_set: "set (group_keys key rs) = set (List.map_filter key rs)"
  by (simp add: group_keys_def)

lemma group_keys_distinct: "distinct (group_keys key rs)"
  by (simp add: group_keys_def)

lemma groupby_agg_fst: "map fst (groupby_agg key agg rs) = group_keys key rs"
  by (simp add: groupby_agg_def comp_def)

lemma groupby_agg_mem:
  "(k, v) \<in> set (groupby_agg key agg rs) \<longleftrightarrow>
     k \<in> set (List.map_filter key rs) \<and> v = agg (group_rows key k rs)"
  by (auto simp: groupby_agg_def group_keys_set)


lemma with_Rank_fst: "map fst (with_Rank tp) = [1 ..< Suc (length tp)]"
  unfolding with_Rank_def by (rule map_fst_zip) (simp only: length_upt diff_Suc_1)

lemma with_Rank_snd: "map snd (with_Rank tp) = tp"
  unfolding with_Rank_def by (rule map_snd_zip) (simp only: length_upt diff_Suc_1)

lemma with_Rank_length: "length (with_Rank tp) = length tp"
  using arg_cong [where f = length, OF with_Rank_snd [of tp]] by simp

lemma top_tables_eq:
  "top_tables d cats =
     map (\<lambda>c. CategoryTable c (with_Rank (top_prod (filter (\<lambda>r. Categorie_Produit r = c) d))))
       (filter (\<lambda>c. top_prod (filter (\<lambda>r. Categorie_Produit r = c) d) \<noteq> []) cats)"
  by (induction cats) (simp_all add: Let_def)

lemma category_sum:
  "sum_Quantite (group_rows Produit p (filter (\<lambda>r. Categorie_Produit r = cat) d))
     = product_total d cat p"
  by (simp add: sum_Quantite_def group_rows_def product_total_def conj_commute)

text \<open>The product series of one category, before \<open>head(5)\<close>.\<close>

lemma product_series_mem:
  "(p, q) \<in> set (sort_values_desc
       (groupby_agg Produit sum_Quantite (filter (\<lambda>r. Categorie_Produit r = cat) d))) \<longleftrightarrow>
     p \<in> products_of d cat \<and> q = product_total d cat p"
  by (simp add: set_sort_values_desc groupby_agg_mem products_of_def category_sum)

lemma product_series_length:
  "length (sort_values_desc
       (groupby_agg Produit sum_Quantite (filter (\<lambda>r. Categorie_Produit r = cat) d)))
     = card (products_of d cat)"
proof -
  let ?sub = "filter (\<lambda>r. Categorie_Produit r = cat) d"
  have "length (sort_values_desc (groupby_agg Produit sum_Quantite ?sub))
        = length (group_keys Produit ?sub)"
    by (simp add: length_sort_values_desc groupby_agg_def)
  also have "\<dots> = card (set (group_keys Produit ?sub))"
    by (simp add: distinct_card group_keys_distinct)
  also have "\<dots> = card (products_of d cat)"
    by (simp add: group_keys_set products_of_def)
  finally show ?thesis .
qed

lemma product_series_distinct:
  "distinct (map fst (sort_values_desc
       (groupby_agg Produit sum_Quantite (filter (\<lambda>r. Categorie_Produit r = cat) d))))"
  by (simp add: distinct_fst_sort_values_desc groupby_agg_fst group_keys_distinct)

lemma top_prod_length:
  "length (top_prod (filter (\<lambda>r. Categorie_Produit r = cat) d)) = min 5 (card (products_of d cat))"
  by (simp add: top_prod_def product_series_length min.commute)

lemma top_prod_Nil_iff:
  "top_prod (filter (\<lambda>r. Categorie_Produit r = cat) d) = [] \<longleftrightarrow> products_of d cat = {}"
proof -
  have "top_prod (filter (\<lambda>r. Categorie_Produit r = cat) d) = [] \<longleftrightarrow>
        length (top_prod (filter (\<lambda>r. Categorie_Produit r = cat) d)) = 0"
    by simp
  also have "\<dots> \<longleftrightarrow> card (products_of d cat) = 0"
    by (simp add: top_prod_length min_def)
  also have "\<dots> \<longleftrightarrow> products_of d cat = {}"
    by (simp add: products_of_def)
  finally show ?thesis .
qed

lemma top_prod_mem:
  "(p, q) \<in> set (top_prod (filter (\<lambda>r. Categorie_Produit r = cat) d)) \<Longrightarrow>
     p \<in> products_of d cat \<and> q = product_total d cat p"
  unfolding top_prod_def by (drule in_set_takeD) (simp add: product_series_mem)

lemma top_prod_distinct:
  "distinct (map fst (top_prod (filter (\<lambda>r. Categorie_Produit r = cat) d)))"
  unfolding top_prod_def take_map [symmetric]
  by (rule distinct_take) (rule product_series_distinct)

lemma top_prod_sorted:
  "sorted_wrt (\<lambda>a b. snd b \<le> snd a) (top_prod sub)"
  unfolding top_prod_def by (rule sorted_wrt_take) (rule sort_values_desc_sorted)

lemma top_prod_greatest:
  assumes "p \<in> products_of d cat"
    and "p \<notin> fst ` set (top_prod (filter (\<lambda>r. Categorie_Produit r = cat) d))"
    and "(p', q) \<in> set (top_prod (filter (\<lambda>r. Categorie_Produit r = cat) d))"
  shows "product_total d cat p \<le> q"
proof -
  let ?S = "sort_values_desc
       (groupby_agg Produit sum_Quantite (filter (\<lambda>r. Categorie_Produit r = cat) d))"
  have "(p, product_total d cat p) \<in> set ?S"
    using assms(1) by (simp add: product_series_mem)
  then have "(p, product_total d cat p) \<in> set (take 5 ?S) \<union> set (drop 5 ?S)"
    by (simp only: set_append [symmetric] append_take_drop_id)
  moreover have "(p, product_total d cat p) \<notin> set (take 5 ?S)"
    using assms(2) by (force simp: top_prod_def)
  ultimately have dropped: "(p, product_total d cat p) \<in> set (drop 5 ?S)" by simp
  have "sorted_wrt (\<lambda>a b. snd b \<le> snd a) (take 5 ?S @ drop 5 ?S)"
    by (simp only: append_take_drop_id sort_values_desc_sorted)
  then have "\<forall>x\<in>set (take 5 ?S). \<forall>y\<in>set (drop 5 ?S). snd y \<le> snd x"
    unfolding sorted_wrt_append by blast
  with dropped assms(3) show ?thesis
    by (force simp: top_prod_def)
qed


lemma table_categories_tables:
  "table_categories (map (\<lambda>c. CategoryTable c (f c)) cs) = cs"
  by (induction cs) (simp_all add: table_categories_def)

lemma top_products_children_tables:
  assumes "has_Produit df"
  shows "table_categories (top_products_children df) =
           filter (\<lambda>c. products_of (rows df) c \<noteq> {})
             (sort (unique (map Categorie_Produit (rows df))))"
    and "table_categories (top_products_children df) = [] \<longleftrightarrow>
           top_products_children df = [NoProductData]"
    and "CategoryTable cat tbl \<in> set (top_products_children df) \<Longrightarrow>
           tbl = with_Rank (top_prod (filter (\<lambda>r. Categorie_Produit r = cat) (rows df)))"
proof -
  let ?cats = "sort (unique (map Categorie_Produit (rows df)))"
  let ?keep = "filter (\<lambda>c. products_of (rows df) c \<noteq> {}) ?cats"
  let ?tab = "\<lambda>c. with_Rank (top_prod (filter (\<lambda>r. Categorie_Produit r = c) (rows df)))"
  have tt: "top_tables (rows df) ?cats = map (\<lambda>c. CategoryTable c (?tab c)) ?keep"
    by (simp add: top_tables_eq top_prod_Nil_iff)
  have ch: "top_products_children df =
      (if ?keep = [] then [NoProductData] else map (\<lambda>c. CategoryTable c (?tab c)) ?keep)"
    using assms by (simp add: top_products_children_def Let_def tt)
  show "table_categories (top_products_children df) = ?keep"
    unfolding ch by (simp add: table_categories_tables) (simp add: table_categories_def)
  then show "table_categories (top_products_children df) = [] \<longleftrightarrow>
           top_products_children df = [NoProductData]"
    unfolding ch by (auto simp: table_categories_def)
  show "tbl = ?tab cat" if "CategoryTable cat tbl \<in> set (top_products_children df)"
    using that unfolding ch by (auto split: if_splits)
qed

text \<open>
  Claim C2, as amended. The callback returns the top-5 area of its filtered frame
  without raising, whatever the frame. For every frame \<open>df\<close> (the snapshot):
  without the product column the area is the one text
  \<open>ProductColumnAbsent\<close>, and only then. With it, the area has one table for every
  category that has a product, in ascending order of the category, or the one text
  \<open>NoProductData\<close> when there is none. Each table lists the products of its category
  with their summed quantity: the 5 best (all of them when there are fewer), in
  descending order of quantity, no listed product below an unlisted one, and the rank
  column numbers the rows 1, 2, ..., k by position, so that products with equal sums get
  different, consecutive ranks.
\<close>

theorem C2_top_products_by_position:
  "(\<exists>out. update_all df0 s e st c p = Inr out \<and>
      out_top_products_children out = top_products_children (dff df0 s e st c p)) \<and>
   (top_products_children df = [ProductColumnAbsent]) = (\<not> has_Produit df) \<and>
   (has_Produit df \<longrightarrow>
      table_categories (top_products_children df) =
        filter (\<lambda>c. products_of (rows df) c \<noteq> {})
          (sort (unique (map Categorie_Produit (rows df)))) \<and>
      (table_categories (top_products_children df) = []) =
        (top_products_children df = [NoProductData])) \<and>
   (has_Produit df \<and> CategoryTable cat tbl \<in> set (top_products_children df) \<longrightarrow>
      map fst tbl = [1 ..< Suc (length tbl)] \<and>
      length tbl = min 5 (card (products_of (rows df) cat)) \<and>
      distinct (map fst (map snd tbl)) \<and>
      sorted_wrt (\<lambda>a b. snd b \<le> snd a) (map snd tbl) \<and>
      (\<forall>(p, q) \<in> set (map snd tbl).
          p \<in> products_of (rows df) cat \<and> q = product_total (rows df) cat p) \<and>
      (\<forall>p \<in> products_of (rows df) cat. p \<notin> fst ` set (map snd tbl) \<longrightarrow>
          (\<forall>(p', q) \<in> set (map snd tbl). product_total (rows df) cat p \<le> q)))"
proof (intro conjI impI)
  show "\<exists>out. update_all df0 s e st c p = Inr out \<and>
      out_top_products_children out = top_products_children (dff df0 s e st c p)"
    by (rule update_all_top_products)
next
  show "(top_products_children df = [ProductColumnAbsent]) = (\<not> has_Produit df)"
  proof (cases "has_Produit df")
    case True
    then have "table_categories (top_products_children df) = [] \<longleftrightarrow>
           top_products_children df = [NoProductData]"
      by (rule top_products_children_tables(2))
    with True show ?thesis by (auto simp: table_categories_def)
  next
    case False
    then show ?thesis by (simp add: top_products_children_def)
  qed
next
  assume "has_Produit df"
  then show "table_categories (top_products_children df) =
        filter (\<lambda>c. products_of (rows df) c \<noteq> {})
          (sort (unique (map Categorie_Produit (rows df))))"
    and "(table_categories (top_products_children df) = []) =
        (top_products_children df = [NoProductData])"
    by (rule top_products_children_tables(1), rule top_products_children_tables(2))
next
  assume a: "has_Produit df \<and> CategoryTable cat tbl \<in> set (top_products_children df)"
  let ?tp = "top_prod (filter (\<lambda>r. Categorie_Produit r = cat) (rows df))"
  have tbl: "tbl = with_Rank ?tp"
    using a top_products_children_tables(3) by blast
  have sn: "map snd tbl = ?tp" and len: "length tbl = length ?tp"
    unfolding tbl by (simp_all add: with_Rank_snd with_Rank_length)
  show "map fst tbl = [1 ..< Suc (length tbl)]"
    unfolding len unfolding tbl by (rule with_Rank_fst)
  show "length tbl = min 5 (card (products_of (rows df) cat))"
    unfolding len by (rule top_prod_length)
  show "distinct (map fst (map snd tbl))"
    unfolding sn by (rule top_prod_distinct)
  show "sorted_wrt (\<lambda>a b. snd b \<le> snd a) (map snd tbl)"
    unfolding sn by (rule top_prod_sorted)
  show "\<forall>(p, q) \<in> set (map snd tbl).
          p \<in> products_of (rows df) cat \<and> q = product_total (rows df) cat p"
    unfolding sn using top_prod_mem by blast
  show "\<forall>p \<in> products_of (rows df) cat. p \<notin> fst ` set (map snd tbl) \<longrightarrow>
          (\<forall>(p', q) \<in> set (map snd tbl). product_total (rows df) cat p \<le> q)"
    unfolding sn using top_prod_greatest by blast
qed

lemma C2_df_children:
  "top_products_children C2_df = [CategoryTable ''catX'' [(1, ''p1'', 3), (2, ''p2'', 3)]]"
  by code_simp

text \<open>
  Claim C2, as stated, fails where it says that tied sums share a rank: two products of
  one category that sold 3 each get the ranks 1 and 2, where dense ranking gives 1 and 1.
\<close>

theorem C2_tied_products_counterexample:
  "top_products_children C2_df = [CategoryTable ''catX'' [(1, ''p1'', 3), (2, ''p2'', 3)]] \<and>
   dense_rank [3, 3] = [1, 1]"
  by (simp add: C2_df_children dense_rank_def)


theorem C2_top_products_by_position_witness:
  "has_Produit C2_df \<and>
   CategoryTable ''catX'' [(1, ''p1'', 3), (2, ''p2'', 3)] \<in> set (top_products_children C2_df) \<and>
   table_categories (top_products_children C2_df) = [''catX''] \<and>
   min 5 (card (products_of (rows C2_df) ''catX'')) = 2 \<and>
   \<not> has_Produit \<lparr>rows = [C1_row], has_Produit = False\<rparr> \<and>
   top_products_children \<lparr>rows = [C1_row], has_Produit = False\<rparr> = [ProductColumnAbsent]"
proof -
  have h1: "has_Produit C2_df"
    by (simp add: C2_df_def)
  have h2: "CategoryTable ''catX'' [(1, ''p1'', 3), (2, ''p2'', 3)]
              \<in> set (top_products_children C2_df)"
    by (simp add: C2_df_children)
  have h3: "\<not> has_Produit \<lparr>rows = [C1_row], has_Produit = False\<rparr>"
    by simp
  have "length [(1::nat, ''p1'', 3::int), (2, ''p2'', 3)]
          = min 5 (card (products_of (rows C2_df) ''catX''))"
    using C2_top_products_by_position
      [where df = C2_df and cat = "''catX''" and tbl = "[(1, ''p1'', 3), (2, ''p2'', 3)]"]
      h1 h2 by blast
  moreover have "top_products_children \<lparr>rows = [C1_row], has_Produit = False\<rparr>
          = [ProductColumnAbsent]"
    using C2_top_products_by_position
      [where df = "\<lparr>rows = [C1_row], has_Produit = False\<rparr>"] h3
    by blast
  ultimately show ?thesis
    using h1 h2 h3 by (simp add: C2_df_children table_categories_def)
qed

section \<open>The store table\<close>

lemma sum_list_delta:
  fixes c :: "'b::comm_monoid_add"
  assumes "distinct ks"
  shows "sum_list (map (\<lambda>k. if a = k then c else 0) ks) = (if a \<in> set ks then c else 0)"
  using assms by (induction ks) auto

lemma group_partition_sum:
  fixes g :: "'r \<Rightarrow> 'b::comm_monoid_add"
  assumes "distinct ks" and "f ` set xs \<subseteq> set ks"
  shows "sum_list (map (\<lambda>k. sum_list (map g (filter (\<lambda>r. f r = k) xs))) ks)
           = sum_list (map g xs)"
  using assms(2)
proof (induction xs)
  case Nil
  then show ?case by simp
next
  case (Cons x xs)
  have "sum_list (map (\<lambda>k. sum_list (map g (filter (\<lambda>r. f r = k) (x # xs)))) ks)
        = sum_list (map (\<lambda>k. (if f x = k then g x else 0)
                              + sum_list (map g (filter (\<lambda>r. f r = k) xs))) ks)"
    by (rule arg_cong [where f = sum_list]) simp
  also have "\<dots> = sum_list (map (\<lambda>k. if f x = k then g x else 0) ks)
                  + sum_list (map (\<lambda>k. sum_list (map g (filter (\<lambda>r. f r = k) xs))) ks)"
    by (simp add: sum_list_addf)
  also have "sum_list (map (\<lambda>k. if f x = k then g x else 0) ks) = g x"
    using Cons.prems by (simp add: sum_list_delta [OF assms(1)])
  finally show ?case using Cons by simp
qed

text \<open>
  The stores partition the snapshot: no row lacks a store (\<^verbatim>\<open>Magasin\<close> is a text after
  cleaning), so the counts of the store table add up to the number of transactions, and
  its totals add up to the total of the sales. The second equation is one of exact
  arithmetic: in the program both sides are \<^verbatim>\<open>float64\<close> sums taken in different orders,
  and how far they differ depends on the rounding of each addition, which this model
  does not contain.
\<close>

lemma store_table_partition:
  "sum_list (map (\<lambda>(store, total, n). total) (store_table_df d)) = total_ventes d \<and>
   sum_list (map (\<lambda>(store, total, n). n) (store_table_df d)) = nb_transactions d"
proof -
  let ?ks = "group_keys (\<lambda>r. Some (Magasin r)) d"
  have d: "distinct ?ks" by (rule group_keys_distinct)
  have s: "Magasin ` set d \<subseteq> set ?ks"
    by (simp add: group_keys_set List.map_filter_def comp_def)
  have "sum_list (map (\<lambda>(store, total, n). total) (store_table_df d))
        = sum_list (map (\<lambda>k. sum_list (map Montant (filter (\<lambda>r. Magasin r = k) d))) ?ks)"
    by (simp add: store_table_df_def groupby_agg_def group_rows_def sum_Montant_def comp_def)
  also have "\<dots> = sum_list (map Montant d)"
    by (rule group_partition_sum [OF d s])
  finally have 1: "sum_list (map (\<lambda>(store, total, n). total) (store_table_df d)) = total_ventes d"
    by (simp add: total_ventes_def)
  have "sum_list (map (\<lambda>(store, total, n). n) (store_table_df d))
        = sum_list (map (\<lambda>k. sum_list (map (\<lambda>r. 1::nat) (filter (\<lambda>r. Magasin r = k) d))) ?ks)"
    by (simp add: store_table_df_def groupby_agg_def group_rows_def comp_def sum_list_triv)
  also have "\<dots> = sum_list (map (\<lambda>r. 1::nat) d)"
    by (rule group_partition_sum [OF d s])
  finally have 2: "sum_list (map (\<lambda>(store, total, n). n) (store_table_df d)) = nb_transactions d"
    by (simp add: nb_transactions_def sum_list_triv)
  from 1 2 show ?thesis ..
qed

end
